theory Spec2Isabelle
  imports Main "HOL-Library.Sublist" "HOL-Library.AList" "HOL-Library.Multiset"
begin

section \<open>Byte strings and the Go string primitives used by the code\<close>

text \<open>
  Go strings are byte sequences; they are modelled as \<open>string\<close> (a list of 8-bit
  characters). White space is Unicode white space in its UTF-8 encoding, as
  \<open>unicode.IsSpace\<close> has it. Case conversion is modelled on the ASCII range, which is
  where every keyword, header name and boundary the code compares lives.
\<close>

abbreviation CR :: char where "CR \<equiv> CHR 0x0D"
abbreviation LF :: char where "LF \<equiv> CHR 0x0A"
abbreviation DQ :: char where "DQ \<equiv> CHR 0x22"
abbreviation BSL :: char where "BSL \<equiv> CHR 0x5C"
abbreviation CRLF :: string where "CRLF \<equiv> [CR, LF]"

definition upper_char :: "char \<Rightarrow> char" where
  "upper_char c =
     (case map_of (zip ''abcdefghijklmnopqrstuvwxyz'' ''ABCDEFGHIJKLMNOPQRSTUVWXYZ'') c of
        Some d \<Rightarrow> d | None \<Rightarrow> c)"

definition lower_char :: "char \<Rightarrow> char" where
  "lower_char c =
     (case map_of (zip ''ABCDEFGHIJKLMNOPQRSTUVWXYZ'' ''abcdefghijklmnopqrstuvwxyz'') c of
        Some d \<Rightarrow> d | None \<Rightarrow> c)"

definition ToUpper :: "string \<Rightarrow> string" where
  "ToUpper s = map upper_char s"

definition ToLower :: "string \<Rightarrow> string" where
  "ToLower s = map lower_char s"

text \<open>
  The UTF-8 encodings of the code points for which \<open>unicode.IsSpace\<close> holds: tab, line
  feed, vertical tab, form feed, carriage return, space, U+0085, U+00A0, U+1680, U+2000 to
  U+200A, U+2028, U+2029, U+202F, U+205F and U+3000. Each encoding starts with a byte that
  is never a continuation byte, so searching for the byte sequences finds exactly the
  runes the decoder of \<open>strings\<close> finds, whether or not the rest of the string is valid
  UTF-8.
\<close>

definition space_runes :: "string list" where
  "space_runes =
     [[CHR 0x09], [CHR 0x0A], [CHR 0x0B], [CHR 0x0C], [CHR 0x0D], [CHR 0x20],
      [CHR 0xC2, CHR 0x85], [CHR 0xC2, CHR 0xA0],
      [CHR 0xE1, CHR 0x9A, CHR 0x80],
      [CHR 0xE2, CHR 0x80, CHR 0x80], [CHR 0xE2, CHR 0x80, CHR 0x81], [CHR 0xE2, CHR 0x80, CHR 0x82],
      [CHR 0xE2, CHR 0x80, CHR 0x83], [CHR 0xE2, CHR 0x80, CHR 0x84], [CHR 0xE2, CHR 0x80, CHR 0x85],
      [CHR 0xE2, CHR 0x80, CHR 0x86], [CHR 0xE2, CHR 0x80, CHR 0x87], [CHR 0xE2, CHR 0x80, CHR 0x88],
      [CHR 0xE2, CHR 0x80, CHR 0x89], [CHR 0xE2, CHR 0x80, CHR 0x8A],
      [CHR 0xE2, CHR 0x80, CHR 0xA8], [CHR 0xE2, CHR 0x80, CHR 0xA9], [CHR 0xE2, CHR 0x80, CHR 0xAF],
      [CHR 0xE2, CHR 0x81, CHR 0x9F],
      [CHR 0xE3, CHR 0x80, CHR 0x80]]"

text \<open>The length in bytes of the rune of \<open>pats\<close> that \<open>s\<close> starts with, 0 when there is none.\<close>

definition rune_len :: "string list \<Rightarrow> string \<Rightarrow> nat" where
  "rune_len pats s = (case find (\<lambda>r. prefix r s) pats of None \<Rightarrow> 0 | Some r \<Rightarrow> length r)"

function trim_runes :: "string list \<Rightarrow> string \<Rightarrow> string" where
  "trim_runes pats s =
     (if 0 < rune_len pats s \<and> s \<noteq> [] then trim_runes pats (drop (rune_len pats s) s) else s)"
  by pat_completeness auto
termination
  by (relation "measure (\<lambda>(pats, s). length s)") auto

declare trim_runes.simps [simp del]

text \<open>
  \<open>strings.TrimSpace\<close>: the white space runes are removed from the front, then from the
  back (the string and the encodings read backwards).
\<close>

definition TrimSpace :: "string \<Rightarrow> string" where
  "TrimSpace s = rev (trim_runes (map rev space_runes) (rev (trim_runes space_runes s)))"

definition Trim :: "string \<Rightarrow> string \<Rightarrow> string" where
  "Trim s cutset =
     rev (dropWhile (\<lambda>c. c \<in> set cutset) (rev (dropWhile (\<lambda>c. c \<in> set cutset) s)))"

text \<open>\<open>strings.Fields\<close>: the maximal runs of bytes between white space runes.\<close>

function fields_acc :: "string \<Rightarrow> string \<Rightarrow> string list" where
  "fields_acc [] cur = (if cur = [] then [] else [cur])"
| "fields_acc (c # cs) cur =
     (if 0 < rune_len space_runes (c # cs) then
        (if cur = [] then fields_acc (drop (rune_len space_runes (c # cs)) (c # cs)) []
         else cur # fields_acc (drop (rune_len space_runes (c # cs)) (c # cs)) [])
      else fields_acc cs (cur @ [c]))"
  by pat_completeness auto
termination
  by (relation "measure (\<lambda>(s, cur). length s)") auto

definition Fields :: "string \<Rightarrow> string list" where
  "Fields s = fields_acc s []"

text \<open>
  \<open>strings.SplitN\<close> and \<open>strings.Split\<close> for the one-byte separators the code passes.
  \<open>split_acc sep n s cur\<close> cuts at most \<open>n\<close> more times.
\<close>

fun split_acc :: "char \<Rightarrow> nat \<Rightarrow> string \<Rightarrow> string \<Rightarrow> string list" where
  "split_acc sep n [] cur = [cur]"
| "split_acc sep n (c # cs) cur =
     (if c = sep \<and> 0 < n then cur # split_acc sep (n - 1) cs []
      else split_acc sep n cs (cur @ [c]))"

definition SplitN :: "string \<Rightarrow> char \<Rightarrow> nat \<Rightarrow> string list" where
  "SplitN s sep n = (if n = 0 then [] else split_acc sep (n - 1) s [])"

definition Split :: "string \<Rightarrow> char \<Rightarrow> string list" where
  "Split s sep = split_acc sep (length s) s []"

fun Join :: "string list \<Rightarrow> string \<Rightarrow> string" where
  "Join [] sep = []"
| "Join [x] sep = x"
| "Join (x # y # ys) sep = x @ sep @ Join (y # ys) sep"

fun Contains :: "string \<Rightarrow> string \<Rightarrow> bool" where
  "Contains [] sub = (sub = [])"
| "Contains (c # cs) sub = (prefix sub (c # cs) \<or> Contains cs sub)"

definition HasPrefix :: "string \<Rightarrow> string \<Rightarrow> bool" where
  "HasPrefix s p = prefix p s"

definition HasSuffix :: "string \<Rightarrow> string \<Rightarrow> bool" where
  "HasSuffix s p = prefix (rev p) (rev s)"

definition digit_val :: "char \<Rightarrow> nat option" where
  "digit_val c = map_of (zip ''0123456789'' [0, 1, 2, 3, 4, 5, 6, 7, 8, 9]) c"

fun parse_digits :: "string \<Rightarrow> nat \<Rightarrow> nat option" where
  "parse_digits [] acc = Some acc"
| "parse_digits (c # cs) acc =
     (case digit_val c of None \<Rightarrow> None | Some d \<Rightarrow> parse_digits cs (10 * acc + d))"

text \<open>
  \<open>strconv.Atoi\<close> (and \<open>ParseInt(s, 10, 64)\<close>) as every caller uses it, \<open>uid, _ := ...\<close>:
  the error is dropped, so a syntax error yields 0 and a range error the nearest
  64-bit bound.
\<close>

definition Atoi :: "string \<Rightarrow> int" where
  "Atoi s =
     (let (neg, ds) =
        (case s of [] \<Rightarrow> (False, [])
         | c # r \<Rightarrow> if c = CHR ''-'' then (True, r)
                    else if c = CHR ''+'' then (False, r) else (False, s))
      in if ds = [] then 0
         else case parse_digits ds 0 of
                None \<Rightarrow> 0
              | Some n \<Rightarrow> if neg then max (- (2 ^ 63)) (- int n) else min (2 ^ 63 - 1) (int n))"

definition digit_char :: "nat \<Rightarrow> char" where
  "digit_char d = ''0123456789'' ! d"

function nat_digits :: "nat \<Rightarrow> string" where
  "nat_digits n = (if n < 10 then [digit_char n] else nat_digits (n div 10) @ [digit_char (n mod 10)])"
  by pat_completeness auto
termination
  by (relation "measure id") auto

declare nat_digits.simps [simp del]

text \<open>The \<open>%d\<close> verb of \<open>fmt.Sprintf\<close>.\<close>

definition itoa :: "int \<Rightarrow> string" where
  "itoa i = (if i < 0 then CHR ''-'' # nat_digits (nat (- i)) else nat_digits (nat i))"

section \<open>IMAP session: data model (imap\_core/types.go)\<close>

datatype SessionState = StateNotAuthenticated | StateAuthenticated | StateSelected | StateLogout

record User =
  u_ID :: nat
  Username :: string

record Mailbox =
  mb_ID :: nat
  mb_User :: nat
  Path :: string
  SpecialUse :: string
  UIDValidity :: int
  UIDNext :: int
  UIDList :: "int list"

record Message =
  msg_ID :: nat
  msg_Mailbox :: nat
  UID :: int
  MessageID :: string
  From :: string
  To :: "string list"
  CC :: "string list"
  Subject :: string
  Date :: int
  Size :: int
  BodyText :: string
  BodyHTML :: string
  InReplyTo :: string
  Seen :: bool
  Answered :: bool
  Flagged :: bool
  Deleted :: bool
  Draft :: bool
  Recent :: bool

text \<open>
  The session fields the command handlers read or write. The connection's writer is the
  \<open>out\<close> component of the world below.
\<close>

record Session =
  authenticated :: bool
  user :: "User option"
  selectedBox :: "Mailbox option"
  state :: SessionState

text \<open>
  The world outside the session: the two MongoDB collections, the lines written to the
  client so far, and the faults the environment will inject. Every database call and
  every write to the connection consumes one entry of \<open>faults\<close>; \<open>True\<close> makes that call
  return an error, and an exhausted list means no further fault.
\<close>

record World =
  mailboxes :: "Mailbox list"
  messages :: "Message list"
  out :: "string list"
  faults :: "bool list"

datatype failure = WriteError | Panic

definition next_fault :: "World \<Rightarrow> bool \<times> World" where
  "next_fault w = (case faults w of [] \<Rightarrow> (False, w) | f # fs \<Rightarrow> (f, w\<lparr>faults := fs\<rparr>))"

subsection \<open>The database calls\<close>

datatype uid_sel = AnyUID | UidEq int | UidIn "int list" | UidGte int | UidBetween int int

datatype msg_filter = ByMailbox nat uid_sel | ByMailboxDeleted nat | ById nat | NilFilter

fun uid_matches :: "uid_sel \<Rightarrow> int \<Rightarrow> bool" where
  "uid_matches AnyUID u = True"
| "uid_matches (UidEq n) u = (u = n)"
| "uid_matches (UidIn ns) u = (u \<in> set ns)"
| "uid_matches (UidGte n) u = (n \<le> u)"
| "uid_matches (UidBetween a b) u = (a \<le> u \<and> u \<le> b)"

fun matches :: "msg_filter \<Rightarrow> Message \<Rightarrow> bool" where
  "matches (ByMailbox b sel) m = (msg_Mailbox m = b \<and> uid_matches sel (UID m))"
| "matches (ByMailboxDeleted b) m = (msg_Mailbox m = b \<and> Deleted m)"
| "matches (ById i) m = (msg_ID m = i)"
| "matches NilFilter m = False"

datatype 'a found = Found 'a | NoDocuments | DbError

text \<open>\<open>Collection("mailboxes").FindOne({user, path})\<close>.\<close>

definition FindOne_mailbox :: "nat \<Rightarrow> string \<Rightarrow> World \<Rightarrow> Mailbox found \<times> World" where
  "FindOne_mailbox uid path w =
     (let (f, w1) = next_fault w in
      if f then (DbError, w1)
      else case filter (\<lambda>b. mb_User b = uid \<and> Path b = path) (mailboxes w1) of
             [] \<Rightarrow> (NoDocuments, w1)
           | b # _ \<Rightarrow> (Found b, w1))"

text \<open>
  \<open>Collection("messages").Find(filter[, sort uid ascending])\<close>; the cursor is the list of
  documents matching when the query runs. A nil filter is rejected by the driver.
\<close>

definition Find :: "msg_filter \<Rightarrow> bool \<Rightarrow> World \<Rightarrow> Message list option \<times> World" where
  "Find flt sorted_by_uid w =
     (let (f, w1) = next_fault w in
      if f \<or> flt = NilFilter then (None, w1)
      else let ms = filter (matches flt) (messages w1)
           in (Some (if sorted_by_uid then sort_key UID ms else ms), w1))"

definition DeleteMany :: "msg_filter \<Rightarrow> World \<Rightarrow> bool \<times> World" where
  "DeleteMany flt w =
     (let (f, w1) = next_fault w in
      if f then (True, w1)
      else (False, w1\<lparr>messages := filter (\<lambda>m. \<not> matches flt m) (messages w1)\<rparr>))"

definition UpdateMany :: "msg_filter \<Rightarrow> (Message \<Rightarrow> Message) \<Rightarrow> World \<Rightarrow> bool \<times> World" where
  "UpdateMany flt upd w =
     (let (f, w1) = next_fault w in
      if f then (True, w1)
      else (False, w1\<lparr>messages := map (\<lambda>m. if matches flt m then upd m else m) (messages w1)\<rparr>))"

fun update_first :: "('a \<Rightarrow> bool) \<Rightarrow> ('a \<Rightarrow> 'a) \<Rightarrow> 'a list \<Rightarrow> 'a list" where
  "update_first P upd [] = []"
| "update_first P upd (x # xs) = (if P x then upd x # xs else x # update_first P upd xs)"

definition UpdateOne_message :: "nat \<Rightarrow> (Message \<Rightarrow> Message) \<Rightarrow> World \<Rightarrow> bool \<times> World" where
  "UpdateOne_message i upd w =
     (let (f, w1) = next_fault w in
      if f then (True, w1)
      else (False, w1\<lparr>messages := update_first (\<lambda>m. msg_ID m = i) upd (messages w1)\<rparr>))"

definition UpdateOne_mailbox :: "nat \<Rightarrow> (Mailbox \<Rightarrow> Mailbox) \<Rightarrow> World \<Rightarrow> bool \<times> World" where
  "UpdateOne_mailbox i upd w =
     (let (f, w1) = next_fault w in
      if f then (True, w1)
      else (False, w1\<lparr>mailboxes := update_first (\<lambda>b. mb_ID b = i) upd (mailboxes w1)\<rparr>))"

subsection \<open>Writing to the client\<close>

definition write_line :: "string \<Rightarrow> World \<Rightarrow> failure option \<times> World" where
  "write_line l w =
     (let (f, w1) = next_fault w in
      if f then (Some WriteError, w1) else (None, w1\<lparr>out := out w1 @ [l]\<rparr>))"

definition writeResponse :: "World \<Rightarrow> string \<Rightarrow> string \<Rightarrow> string \<Rightarrow> failure option \<times> World" where
  "writeResponse w tag status txt = write_line (tag @ '' '' @ status @ '' '' @ txt @ CRLF) w"

definition writeUntaggedResponse :: "World \<Rightarrow> string \<Rightarrow> failure option \<times> World" where
  "writeUntaggedResponse w txt = write_line (''* '' @ txt @ CRLF) w"

text \<open>\<open>return s.writeResponse(tag, status, text)\<close>: the handler ends with this reply.\<close>

definition reply :: "Session \<Rightarrow> World \<Rightarrow> string \<Rightarrow> string \<Rightarrow> string \<Rightarrow> failure option \<times> Session \<times> World" where
  "reply s w tag status txt = (case writeResponse w tag status txt of (e, w1) \<Rightarrow> (e, s, w1))"

text \<open>
  A loop \<open>for ... { if err := s.writeUntaggedResponse(x); err != nil { return err } }\<close>:
  it stops at the first failed write.
\<close>

fun write_all :: "string list \<Rightarrow> World \<Rightarrow> failure option \<times> World" where
  "write_all [] w = (None, w)"
| "write_all (x # xs) w =
     (case writeUntaggedResponse w x of
        (Some e, w1) \<Rightarrow> (Some e, w1)
      | (None, w1) \<Rightarrow> write_all xs w1)"

subsection \<open>CLOSE and EXPUNGE (imap\_core/mailbox\_commands.go)\<close>

definition handleClose :: "Session \<Rightarrow> World \<Rightarrow> string \<Rightarrow> failure option \<times> Session \<times> World" where
  "handleClose s w tag =
     (if state s \<noteq> StateSelected then reply s w tag ''BAD'' ''No mailbox selected''
      else
        let w1 = (case selectedBox s of
                    None \<Rightarrow> w
                  | Some box \<Rightarrow> snd (DeleteMany (ByMailboxDeleted (mb_ID box)) w))
        in reply (s\<lparr>selectedBox := None, state := StateAuthenticated\<rparr>) w1 tag ''OK'' ''CLOSE completed'')"

definition handleExpunge :: "Session \<Rightarrow> World \<Rightarrow> string \<Rightarrow> failure option \<times> Session \<times> World" where
  "handleExpunge s w tag =
     (if state s \<noteq> StateSelected then reply s w tag ''BAD'' ''No mailbox selected''
      else case selectedBox s of
        None \<Rightarrow> (Some Panic, s, w)
      | Some box \<Rightarrow>
          (case Find (ByMailboxDeleted (mb_ID box)) True w of
             (None, w1) \<Rightarrow> reply s w1 tag ''NO'' ''Database error''
           | (Some cursor, w1) \<Rightarrow>
               let deletedUIDs = map UID cursor in
               (case DeleteMany (ByMailboxDeleted (mb_ID box)) w1 of
                  (True, w2) \<Rightarrow> reply s w2 tag ''NO'' ''Failed to delete messages''
                | (False, w2) \<Rightarrow>
                    (case write_all (map (\<lambda>uid. itoa uid @ '' EXPUNGE'') deletedUIDs) w2 of
                       (Some e, w3) \<Rightarrow> (Some e, s, w3)
                     | (None, w3) \<Rightarrow> reply s w3 tag ''OK'' ''EXPUNGE completed''))))"

subsection \<open>APPEND (imap\_core/mailbox\_commands.go) and its argument parser\<close>

text \<open>\<open>parseQuotedArguments\<close>: the loop over the characters with its four variables.\<close>

fun pqa_loop :: "string \<Rightarrow> string list \<Rightarrow> string \<Rightarrow> bool \<Rightarrow> bool \<Rightarrow> string list" where
  "pqa_loop [] result current inQuotes escaped =
     (if current \<noteq> [] then result @ [current] else result)"
| "pqa_loop (c # cs) result current inQuotes escaped =
     (if escaped then pqa_loop cs result (current @ [c]) inQuotes False
      else if c = BSL then
        (if inQuotes then pqa_loop cs result current inQuotes True
         else pqa_loop cs result (current @ [c]) inQuotes escaped)
      else if c = DQ then pqa_loop cs result current (\<not> inQuotes) escaped
      else if c = CHR '' '' then
        (if \<not> inQuotes then
           (if current \<noteq> [] then pqa_loop cs (result @ [current]) [] inQuotes escaped
            else pqa_loop cs result current inQuotes escaped)
         else pqa_loop cs result (current @ [c]) inQuotes escaped)
      else pqa_loop cs result (current @ [c]) inQuotes escaped)"

definition parseQuotedArguments :: "string \<Rightarrow> string list" where
  "parseQuotedArguments args = pqa_loop args [] [] False False"

text \<open>
  \<open>parseMailboxPath\<close>. The slice \<open>args[1 : len(args)-1]\<close> panics when \<open>args\<close> is the one
  character \<open>"\<close> (bounds 1 > 0): that is the result \<open>None\<close>.
\<close>

definition parseMailboxPath :: "string \<Rightarrow> string option" where
  "parseMailboxPath args0 =
     (let args = TrimSpace args0 in
      if HasPrefix args [DQ] \<and> HasSuffix args [DQ] then
        (if length args < 2 then None else Some (take (length args - 2) (drop 1 args)))
      else Some args)"

definition handleAppend :: "Session \<Rightarrow> World \<Rightarrow> string \<Rightarrow> string \<Rightarrow> failure option \<times> Session \<times> World" where
  "handleAppend s w tag args =
     (if \<not> authenticated s then reply s w tag ''NO'' ''Not authenticated''
      else
        let parts = parseQuotedArguments args in
        if length parts < 2 then reply s w tag ''BAD'' ''APPEND expects mailbox and message''
        else
          let mailboxPath = parts ! 0 in
          case user s of
            None \<Rightarrow> (Some Panic, s, w)
          | Some u \<Rightarrow>
              (case FindOne_mailbox (u_ID u) mailboxPath w of
                 (Found mailbox, w1) \<Rightarrow> reply s w1 tag ''NO'' ''APPEND not fully implemented''
               | (_, w1) \<Rightarrow> reply s w1 tag ''NO'' ''[TRYCREATE] Mailbox does not exist''))"

subsection \<open>FETCH (imap\_core/message\_commands.go, imap\_core/search\_commands.go)\<close>

definition markMessageSeen :: "nat \<Rightarrow> World \<Rightarrow> World" where
  "markMessageSeen msgID w = snd (UpdateOne_message msgID (\<lambda>m. m\<lparr>Seen := True\<rparr>) w)"

definition buildFlagsString :: "Message \<Rightarrow> string" where
  "buildFlagsString msg =
     Join ((if Seen msg then [BSL # ''Seen''] else [])
         @ (if Answered msg then [BSL # ''Answered''] else [])
         @ (if Flagged msg then [BSL # ''Flagged''] else [])
         @ (if Deleted msg then [BSL # ''Deleted''] else [])
         @ (if Draft msg then [BSL # ''Draft''] else [])) '' ''"

definition quoteString :: "string \<Rightarrow> string" where
  "quoteString str =
     (if str = [] then ''NIL''
      else [DQ] @ concat (map (\<lambda>c. if c = DQ then [BSL, DQ] else [c]) str) @ [DQ])"

definition buildAddressList :: "string list \<Rightarrow> string" where
  "buildAddressList addresses =
     (if addresses = [] then ''NIL''
      else
        let addressStructs =
              concat (map (\<lambda>addr. let parts = Split addr (CHR ''@'') in
                             if length parts = 2
                             then [''(NIL NIL '' @ [DQ] @ parts ! 0 @ [DQ] @ '' '' @ [DQ] @ parts ! 1 @ [DQ] @ '')'']
                             else []) addresses)
        in if addressStructs = [] then ''NIL'' else ''('' @ Join addressStructs [] @ '')'')"

text \<open>
  \<open>time.Time.Format\<close> belongs to the Go library; the handlers take it as the parameter
  \<open>fmtTime layout instant\<close>.
\<close>

definition buildEnvelope :: "(string \<Rightarrow> int \<Rightarrow> string) \<Rightarrow> Message \<Rightarrow> string" where
  "buildEnvelope fmtTime msg =
     (let date = [DQ] @ fmtTime ''Mon, 02 Jan 2006 15:04:05 -0700'' (Date msg) @ [DQ];
          subject = quoteString (Subject msg);
          from = buildAddressList [From msg];
          sender = from;
          replyTo = from;
          to = buildAddressList (To msg);
          cc = buildAddressList (CC msg);
          bcc = ''NIL'';
          inReplyTo = quoteString (InReplyTo msg);
          messageID = quoteString (MessageID msg)
      in ''('' @ Join [date, subject, from, sender, replyTo, to, cc, bcc, inReplyTo, messageID] '' '' @ '')'')"

definition single_part :: "string \<Rightarrow> nat \<Rightarrow> string" where
  "single_part subtype n =
     ''('' @ [DQ] @ ''TEXT'' @ [DQ] @ '' '' @ [DQ] @ subtype @ [DQ] @ '' ('' @ [DQ] @ ''CHARSET'' @ [DQ]
       @ '' '' @ [DQ] @ ''UTF-8'' @ [DQ] @ '') NIL NIL '' @ [DQ] @ ''7BIT'' @ [DQ] @ '' ''
       @ itoa (int n) @ '' NIL NIL NIL)''"

definition buildBodyStructure :: "Message \<Rightarrow> string" where
  "buildBodyStructure msg =
     (if BodyHTML msg \<noteq> [] \<and> BodyText msg \<noteq> [] then
        ''(('' @ single_part ''PLAIN'' (length (BodyText msg)) @ '')(''
          @ single_part ''HTML'' (length (BodyHTML msg)) @ '') '' @ [DQ] @ ''ALTERNATIVE'' @ [DQ]
          @ '' ('' @ [DQ] @ ''BOUNDARY'' @ [DQ] @ '' '' @ [DQ] @ ''boundary123'' @ [DQ] @ '') NIL NIL NIL)''
      else if BodyHTML msg \<noteq> [] then single_part ''HTML'' (length (BodyHTML msg))
      else single_part ''PLAIN'' (length (BodyText msg)))"

definition buildHeaderString :: "(string \<Rightarrow> int \<Rightarrow> string) \<Rightarrow> Message \<Rightarrow> string" where
  "buildHeaderString fmtTime msg =
     Join ([''From: '' @ From msg]
         @ (if To msg \<noteq> [] then [''To: '' @ Join (To msg) '', ''] else [])
         @ (if CC msg \<noteq> [] then [''Cc: '' @ Join (CC msg) '', ''] else [])
         @ [''Subject: '' @ Subject msg]
         @ [''Date: '' @ fmtTime ''Mon, 02 Jan 2006 15:04:05 -0700'' (Date msg)]
         @ (if MessageID msg \<noteq> [] then [''Message-ID: '' @ MessageID msg] else [])) CRLF @ CRLF"

definition buildFullMessage :: "(string \<Rightarrow> int \<Rightarrow> string) \<Rightarrow> Message \<Rightarrow> string" where
  "buildFullMessage fmtTime msg =
     buildHeaderString fmtTime msg @ CRLF @ (if BodyText msg = [] then BodyHTML msg else BodyText msg)"

definition literal :: "string \<Rightarrow> string \<Rightarrow> string" where
  "literal name body = name @ '' {'' @ itoa (int (length body)) @ ''}'' @ CRLF @ body"

text \<open>
  \<open>buildFetchResponse\<close>. \<open>msg\<close> is the document as decoded from the cursor; the calls of
  \<open>markMessageSeen\<close> act on the stored document.
\<close>

definition buildFetchResponse ::
  "(string \<Rightarrow> int \<Rightarrow> string) \<Rightarrow> Message \<Rightarrow> string \<Rightarrow> World \<Rightarrow> string \<times> World" where
  "buildFetchResponse fmtTime msg items w =
     (let parts1 = (if Contains items ''UID'' then [''UID '' @ itoa (UID msg)] else []);
          parts2 = parts1 @ (if Contains items ''FLAGS''
                             then [''FLAGS ('' @ buildFlagsString msg @ '')''] else []);
          parts3 = parts2 @ (if Contains items ''INTERNALDATE''
                             then [''INTERNALDATE '' @ [DQ] @ fmtTime ''02-Jan-2006 15:04:05 -0700'' (Date msg) @ [DQ]]
                             else []);
          parts4 = parts3 @ (if Contains items ''RFC822.SIZE''
                             then [''RFC822.SIZE '' @ itoa (Size msg)] else []);
          parts5 = parts4 @ (if Contains items ''ENVELOPE''
                             then [''ENVELOPE '' @ buildEnvelope fmtTime msg] else []);
          parts6 = parts5 @ (if Contains items ''BODYSTRUCTURE''
                             then [''BODYSTRUCTURE '' @ buildBodyStructure msg] else []);
          hdr = (Contains items ''BODY.PEEK[HEADER]'' \<or> Contains items ''BODY[HEADER]'');
          parts7 = parts6 @ (if hdr then [literal ''BODY[HEADER]'' (buildHeaderString fmtTime msg)] else []);
          w1 = (if hdr \<and> Contains items ''BODY[HEADER]'' \<and> \<not> Seen msg
                then markMessageSeen (msg_ID msg) w else w);
          txt = (Contains items ''BODY.PEEK[TEXT]'' \<or> Contains items ''BODY[TEXT]'');
          parts8 = parts7 @ (if txt
                             then [literal ''BODY[TEXT]'' (if BodyText msg = [] then BodyHTML msg else BodyText msg)]
                             else []);
          w2 = (if txt \<and> Contains items ''BODY[TEXT]'' \<and> \<not> Seen msg
                then markMessageSeen (msg_ID msg) w1 else w1);
          full = Contains items ''RFC822'';
          parts9 = parts8 @ (if full then [literal ''RFC822'' (buildFullMessage fmtTime msg)] else []);
          w3 = (if full \<and> \<not> Seen msg then markMessageSeen (msg_ID msg) w2 else w2)
      in (itoa (UID msg) @ '' FETCH ('' @ Join parts9 '' '' @ '')'', w3))"

fun fetch_loop ::
  "(string \<Rightarrow> int \<Rightarrow> string) \<Rightarrow> Message list \<Rightarrow> string \<Rightarrow> World \<Rightarrow> failure option \<times> World" where
  "fetch_loop fmtTime [] items w = (None, w)"
| "fetch_loop fmtTime (msg # rest) items w =
     (case buildFetchResponse fmtTime msg items w of
        (response, w1) \<Rightarrow>
          (case writeUntaggedResponse w1 response of
             (Some e, w2) \<Rightarrow> (Some e, w2)
           | (None, w2) \<Rightarrow> fetch_loop fmtTime rest items w2))"

definition handleFetch ::
  "(string \<Rightarrow> int \<Rightarrow> string) \<Rightarrow> Session \<Rightarrow> World \<Rightarrow> string \<Rightarrow> string \<Rightarrow> failure option \<times> Session \<times> World" where
  "handleFetch fmtTime s w tag args =
     (if state s \<noteq> StateSelected then reply s w tag ''BAD'' ''No mailbox selected''
      else
        let parts = SplitN args (CHR '' '') 2 in
        if length parts \<noteq> 2 then reply s w tag ''BAD'' ''FETCH expects sequence set and items''
        else
          let seqSet = parts ! 0; fetchItems = ToUpper (parts ! 1) in
          case selectedBox s of
            None \<Rightarrow> (Some Panic, s, w)
          | Some box \<Rightarrow>
              let flt =
                (if Contains seqSet '':'' then
                   (let rangeParts = Split seqSet (CHR '':'') in
                    if length rangeParts = 2 then
                      (if rangeParts ! 1 = ''*'' then ByMailbox (mb_ID box) (UidGte (Atoi (rangeParts ! 0)))
                       else ByMailbox (mb_ID box) (UidBetween (Atoi (rangeParts ! 0)) (Atoi (rangeParts ! 1))))
                    else NilFilter)
                 else if seqSet = ''*'' then ByMailbox (mb_ID box) AnyUID
                 else ByMailbox (mb_ID box) (UidEq (Atoi seqSet)))
              in
              (case Find flt True w of
                 (None, w1) \<Rightarrow> reply s w1 tag ''NO'' ''Database error''
               | (Some cursor, w1) \<Rightarrow>
                   (case fetch_loop fmtTime cursor fetchItems w1 of
                      (Some e, w2) \<Rightarrow> (Some e, s, w2)
                    | (None, w2) \<Rightarrow> reply s w2 tag ''OK'' ''FETCH completed'')))"

subsection \<open>STORE (imap\_core/message\_commands.go)\<close>

text \<open>
  \<open>parseFlags\<close> returns a \<open>bson.M\<close> that always has the five keys; it is the association
  list below, and \<open>$set\<close> writes every entry into the document.
\<close>

definition parseFlags :: "string \<Rightarrow> (string \<times> bool) list" where
  "parseFlags flagsStr =
     foldl (\<lambda>flags flag.
              let u = ToUpper flag in
              if u = BSL # ''SEEN'' then AList.update ''seen'' True flags
              else if u = BSL # ''ANSWERED'' then AList.update ''answered'' True flags
              else if u = BSL # ''FLAGGED'' then AList.update ''flagged'' True flags
              else if u = BSL # ''DELETED'' then AList.update ''deleted'' True flags
              else if u = BSL # ''DRAFT'' then AList.update ''draft'' True flags
              else flags)
       [(''seen'', False), (''answered'', False), (''flagged'', False), (''deleted'', False), (''draft'', False)]
       (Fields (Trim flagsStr ''()''))"

definition set_field :: "string \<times> bool \<Rightarrow> Message \<Rightarrow> Message" where
  "set_field kv m =
     (if fst kv = ''seen'' then m\<lparr>Seen := snd kv\<rparr>
      else if fst kv = ''answered'' then m\<lparr>Answered := snd kv\<rparr>
      else if fst kv = ''flagged'' then m\<lparr>Flagged := snd kv\<rparr>
      else if fst kv = ''deleted'' then m\<lparr>Deleted := snd kv\<rparr>
      else if fst kv = ''draft'' then m\<lparr>Draft := snd kv\<rparr>
      else m)"

definition apply_set :: "(string \<times> bool) list \<Rightarrow> Message \<Rightarrow> Message" where
  "apply_set upd m = fold set_field upd m"

text \<open>The untagged FETCH lines of STORE; the result of each write is discarded by the code.\<close>

fun store_echo :: "(Message \<Rightarrow> string) \<Rightarrow> Message list \<Rightarrow> World \<Rightarrow> World" where
  "store_echo render [] w = w"
| "store_echo render (msg # rest) w = store_echo render rest (snd (writeUntaggedResponse w (render msg)))"

definition store_update :: "string \<Rightarrow> (string \<times> bool) list \<Rightarrow> (string \<times> bool) list option" where
  "store_update action flags =
     (if HasPrefix action ''+FLAGS'' then Some flags
      else if HasPrefix action ''-FLAGS'' then Some (map (\<lambda>kv. (fst kv, False)) flags)
      else if action = ''FLAGS'' then Some flags
      else None)"

definition store_run ::
  "(Message \<Rightarrow> string) \<Rightarrow> string \<Rightarrow> Session \<Rightarrow> World \<Rightarrow> string \<Rightarrow> msg_filter \<Rightarrow> string \<Rightarrow> string
     \<Rightarrow> failure option \<times> Session \<times> World" where
  "store_run render done s w tag flt action flagsStr =
     (let flags = parseFlags flagsStr in
      case store_update action flags of
        None \<Rightarrow> reply s w tag ''BAD'' ''Invalid STORE action''
      | Some upd \<Rightarrow>
          (case UpdateMany flt (apply_set upd) w of
             (True, w1) \<Rightarrow> reply s w1 tag ''NO'' ''Failed to update flags''
           | (False, w1) \<Rightarrow>
               let w3 = (if \<not> Contains action ''SILENT'' then
                           (case Find flt False w1 of
                              (None, w2) \<Rightarrow> w2
                            | (Some cursor, w2) \<Rightarrow> store_echo render cursor w2)
                         else w1)
               in reply s w3 tag ''OK'' done))"

definition handleStore :: "Session \<Rightarrow> World \<Rightarrow> string \<Rightarrow> string \<Rightarrow> failure option \<times> Session \<times> World" where
  "handleStore s w tag args =
     (if state s \<noteq> StateSelected then reply s w tag ''BAD'' ''No mailbox selected''
      else
        let parts = SplitN args (CHR '' '') 3 in
        if length parts \<noteq> 3 then reply s w tag ''BAD'' ''STORE expects sequence, action, and flags''
        else
          let seqSet = parts ! 0; action = ToUpper (parts ! 1); flagsStr = parts ! 2 in
          case selectedBox s of
            None \<Rightarrow> (Some Panic, s, w)
          | Some box \<Rightarrow>
              let flt = (if seqSet = ''*'' then ByMailbox (mb_ID box) AnyUID
                         else ByMailbox (mb_ID box) (UidEq (Atoi seqSet)))
              in store_run (\<lambda>msg. itoa (UID msg) @ '' FETCH (FLAGS ('' @ buildFlagsString msg @ ''))'')
                   ''STORE completed'' s w tag flt action flagsStr)"

subsection \<open>UID FETCH and UID STORE (imap\_core/search\_commands.go)\<close>

text \<open>\<open>strconv.ParseInt(s, 10, 64)\<close> where the caller tests the error: \<open>None\<close> is \<open>err != nil\<close>.\<close>

definition ParseInt :: "string \<Rightarrow> int option" where
  "ParseInt s =
     (let (neg, ds) =
        (case s of [] \<Rightarrow> (False, [])
         | c # r \<Rightarrow> if c = CHR ''-'' then (True, r)
                    else if c = CHR ''+'' then (False, r) else (False, s))
      in if ds = [] then None
         else case parse_digits ds 0 of
                None \<Rightarrow> None
              | Some n \<Rightarrow> let v = (if neg then - int n else int n)
                          in if - (2 ^ 63) \<le> v \<and> v \<le> 2 ^ 63 - 1 then Some v else None)"

definition uid_list :: "string \<Rightarrow> int list" where
  "uid_list uidSet = List.map_filter (\<lambda>uidStr. ParseInt (TrimSpace uidStr)) (Split uidSet (CHR '',''))"

definition handleUIDFetch ::
  "(string \<Rightarrow> int \<Rightarrow> string) \<Rightarrow> Session \<Rightarrow> World \<Rightarrow> string \<Rightarrow> string \<Rightarrow> failure option \<times> Session \<times> World" where
  "handleUIDFetch fmtTime s w tag args =
     (if state s \<noteq> StateSelected then reply s w tag ''BAD'' ''No mailbox selected''
      else
        let parts = SplitN args (CHR '' '') 2 in
        if length parts \<noteq> 2 then reply s w tag ''BAD'' ''UID FETCH expects UID set and items''
        else
          let uidSet = parts ! 0; fetchItems = ToUpper (parts ! 1) in
          case selectedBox s of
            None \<Rightarrow> (Some Panic, s, w)
          | Some box \<Rightarrow>
              let flt =
                (if Contains uidSet '':'' then
                   (let rangeParts = Split uidSet (CHR '':'') in
                    if length rangeParts = 2 then
                      (if rangeParts ! 1 = ''*'' then ByMailbox (mb_ID box) (UidGte (Atoi (rangeParts ! 0)))
                       else ByMailbox (mb_ID box) (UidBetween (Atoi (rangeParts ! 0)) (Atoi (rangeParts ! 1))))
                    else NilFilter)
                 else if uidSet = ''*'' then ByMailbox (mb_ID box) AnyUID
                 else if Contains uidSet '','' then ByMailbox (mb_ID box) (UidIn (uid_list uidSet))
                 else ByMailbox (mb_ID box) (UidEq (Atoi uidSet)));
                  items = (if \<not> Contains fetchItems ''UID'' then ''UID '' @ fetchItems else fetchItems)
              in
              (case Find flt True w of
                 (None, w1) \<Rightarrow> reply s w1 tag ''NO'' ''Database error''
               | (Some cursor, w1) \<Rightarrow>
                   (case fetch_loop fmtTime cursor items w1 of
                      (Some e, w2) \<Rightarrow> (Some e, s, w2)
                    | (None, w2) \<Rightarrow> reply s w2 tag ''OK'' ''UID FETCH completed'')))"

definition handleUIDStore :: "Session \<Rightarrow> World \<Rightarrow> string \<Rightarrow> string \<Rightarrow> failure option \<times> Session \<times> World" where
  "handleUIDStore s w tag args =
     (if state s \<noteq> StateSelected then reply s w tag ''BAD'' ''No mailbox selected''
      else
        let parts = SplitN args (CHR '' '') 3 in
        if length parts \<noteq> 3 then reply s w tag ''BAD'' ''UID STORE expects UID set, action, and flags''
        else
          let uidSet = parts ! 0; action = ToUpper (parts ! 1); flagsStr = parts ! 2 in
          case selectedBox s of
            None \<Rightarrow> (Some Panic, s, w)
          | Some box \<Rightarrow>
              let flt = (if uidSet = ''*'' then ByMailbox (mb_ID box) AnyUID
                         else if Contains uidSet '','' then ByMailbox (mb_ID box) (UidIn (uid_list uidSet))
                         else ByMailbox (mb_ID box) (UidEq (Atoi uidSet)))
              in store_run (\<lambda>msg. itoa (UID msg) @ '' FETCH (UID '' @ itoa (UID msg) @ '' FLAGS (''
                                     @ buildFlagsString msg @ ''))'')
                   ''UID STORE completed'' s w tag flt action flagsStr)"

subsection \<open>MOVE (imap\_core/message\_commands.go)\<close>

text \<open>
  \<open>int64\<close> is the value a Go \<open>int64\<close> holds after an arithmetic operation whose exact
  result is the argument: the result wraps around modulo \<open>2^64\<close>.
\<close>

definition int64 :: "int \<Rightarrow> int" where
  "int64 x = (x + 2 ^ 63) mod 2 ^ 64 - 2 ^ 63"

text \<open>
  The update \<open>{"$inc": {"uidNext": 1}}\<close> of the stored counter. The store keeps the field
  as a 64-bit integer and refuses an increment past its largest value; the handler drops
  the result of the call, so a refused increment leaves the document as it was.
\<close>

definition inc_uidNext :: "Mailbox \<Rightarrow> Mailbox" where
  "inc_uidNext b = (if UIDNext b < 2 ^ 63 - 1 then b\<lparr>UIDNext := UIDNext b + 1\<rparr> else b)"

text \<open>
  The loop over the cursor. \<open>destBox\<close> is the handler's local copy of the destination
  mailbox, whose \<open>UIDNext\<close> it increments (\<open>destBox.UIDNext++\<close>, a Go \<open>int64\<close>) beside
  the stored counter. A failed update of the message skips the message; the result of the
  update of the stored counter is not looked at.
\<close>

fun move_loop :: "Message list \<Rightarrow> Mailbox \<Rightarrow> int list \<Rightarrow> World \<Rightarrow> int list \<times> Mailbox \<times> World" where
  "move_loop [] destBox movedUIDs w = (movedUIDs, destBox, w)"
| "move_loop (msg # rest) destBox movedUIDs w =
     (let newUID = UIDNext destBox in
      case UpdateOne_message (msg_ID msg) (\<lambda>m. m\<lparr>msg_Mailbox := mb_ID destBox, UID := newUID\<rparr>) w of
        (True, w1) \<Rightarrow> move_loop rest destBox movedUIDs w1
      | (False, w1) \<Rightarrow>
          let w2 = snd (UpdateOne_mailbox (mb_ID destBox) inc_uidNext w1)
          in move_loop rest (destBox\<lparr>UIDNext := int64 (UIDNext destBox + 1)\<rparr>) (movedUIDs @ [UID msg]) w2)"

definition handleMove :: "Session \<Rightarrow> World \<Rightarrow> string \<Rightarrow> string \<Rightarrow> failure option \<times> Session \<times> World" where
  "handleMove s w tag args =
     (if state s \<noteq> StateSelected then reply s w tag ''BAD'' ''No mailbox selected''
      else
        let parts = SplitN args (CHR '' '') 2 in
        if length parts \<noteq> 2 then reply s w tag ''BAD'' ''MOVE expects sequence set and mailbox''
        else
          let seqSet = parts ! 0 in
          case parseMailboxPath (parts ! 1) of
            None \<Rightarrow> (Some Panic, s, w)
          | Some destMailbox \<Rightarrow>
              (case user s of
                 None \<Rightarrow> (Some Panic, s, w)
               | Some u \<Rightarrow>
                   (case FindOne_mailbox (u_ID u) destMailbox w of
                      (Found destBox, w1) \<Rightarrow>
                        (case selectedBox s of
                           None \<Rightarrow> (Some Panic, s, w1)
                         | Some box \<Rightarrow>
                             let flt = (if seqSet = ''*'' then ByMailbox (mb_ID box) AnyUID
                                        else ByMailbox (mb_ID box) (UidEq (Atoi seqSet)))
                             in
                             (case Find flt False w1 of
                                (None, w2) \<Rightarrow> reply s w2 tag ''NO'' ''Database error''
                              | (Some cursor, w2) \<Rightarrow>
                                  (case move_loop cursor destBox [] w2 of
                                     (movedUIDs, destBox', w3) \<Rightarrow>
                                       (case write_all (map (\<lambda>uid. itoa uid @ '' EXPUNGE'') movedUIDs) w3 of
                                          (Some e, w4) \<Rightarrow> (Some e, s, w4)
                                        | (None, w4) \<Rightarrow> reply s w4 tag ''OK'' ''MOVE completed''))))
                    | (_, w1) \<Rightarrow> reply s w1 tag ''NO'' ''[TRYCREATE] Destination mailbox does not exist'')))"

subsection \<open>The \<open>UID\<close> prefix (the case \<open>"UID"\<close> of \<open>processCommand\<close>, imap\_core/search\_commands.go)\<close>


subsection \<open>A concrete store\<close>

definition ex_user :: User where
  "ex_user = \<lparr>u_ID = 1, Username = ''alice''\<rparr>"

definition ex_inbox :: Mailbox where
  "ex_inbox = \<lparr>mb_ID = 10, mb_User = 1, Path = ''INBOX'', SpecialUse = BSL # ''Inbox'',
               UIDValidity = 1, UIDNext = 8, UIDList = []\<rparr>"

definition ex_archive :: Mailbox where
  "ex_archive = \<lparr>mb_ID = 11, mb_User = 1, Path = ''Archive'', SpecialUse = [],
                 UIDValidity = 2, UIDNext = 1, UIDList = []\<rparr>"

text \<open>A message of the inbox with the given document id and UID and no flag set.\<close>

definition ex_msg :: "nat \<Rightarrow> int \<Rightarrow> Message" where
  "ex_msg i u = \<lparr>msg_ID = i, msg_Mailbox = 10, UID = u, MessageID = [], From = ''a@x'',
                 To = [''b@x''], CC = [], Subject = ''hi'', Date = 0, Size = 64,
                 BodyText = ''body'', BodyHTML = [], InReplyTo = [],
                 Seen = False, Answered = False, Flagged = False, Deleted = False,
                 Draft = False, Recent = False\<rparr>"

definition ex_session :: Session where
  "ex_session = \<lparr>authenticated = True, user = Some ex_user, selectedBox = Some ex_inbox,
                 state = StateSelected\<rparr>"

definition ex_world :: "Message list \<Rightarrow> bool list \<Rightarrow> World" where
  "ex_world ms fs = \<lparr>mailboxes = [ex_inbox, ex_archive], messages = ms, out = [], faults = fs\<rparr>"



subsection \<open>The effect of the MOVE loop on the message collection\<close>



subsection \<open>Sequence numbers, in the specification's words\<close>

text \<open>
  The specification numbers the messages of a mailbox by their position in its ascending
  list of UIDs. \<open>spec_seqnum b ms u\<close> is that position for the message with UID \<open>u\<close> of
  mailbox \<open>b\<close>; the code never computes it.
\<close>

definition spec_seqnum :: "nat \<Rightarrow> Message list \<Rightarrow> int \<Rightarrow> nat" where
  "spec_seqnum b ms u = Suc (length (filter (\<lambda>m. msg_Mailbox m = b \<and> UID m < u) ms))"

section \<open>LMTP session (package lmtp)\<close>

subsection \<open>Data model (api/models/models.go and the session types)\<close>

record MUser =
  mu_ID :: nat
  mu_Disabled :: bool
  mu_StorageUsed :: int

record MAddress =
  ma_User :: nat
  ma_Address :: string

record MMailbox =
  mm_ID :: nat
  mm_User :: nat
  mm_Path :: string
  mm_SpecialUse :: string
  mm_ModifyIndex :: int
  mm_UIDNext :: int

record EmailAddress =
  ea_Name :: string
  ea_Address :: string

record MMessage =
  mg_User :: nat
  mg_Mailbox :: nat
  mg_UID :: int
  mg_ModSeq :: int
  mg_Size :: int
  mg_Flags :: "string list"
  mg_Subject :: string
  mg_Date :: int
  mg_Unseen :: bool
  mg_Undeleted :: bool
  mg_Flagged :: bool
  mg_Draft :: bool
  mg_MetaFrom :: string
  mg_HeaderFrom :: "EmailAddress list"
  mg_HeaderTo :: "EmailAddress list"

record UserRecipient =
  Recipient :: string
  ur_User :: MUser
  ur_Address :: MAddress

record LSession =
  users :: "UserRecipient list"

record SMTPError =
  Code :: nat
  Msg :: string

datatype action_val = ABool bool | AStr string

record FilterQuery =
  fq_Headers :: "(string \<times> string) list"
  fq_HasAttachments :: "int option"
  fq_Size :: "int option"
  fq_Text :: string

record Filter =
  f_ID :: string
  f_Query :: FilterQuery
  f_Action :: "(string \<times> action_val) list"

text \<open>
  What \<open>indexer.ProcessMessage\<close> hands back. The function is not among the sources; the
  session takes it as the parameter \<open>index\<close>, whose result \<open>None\<close> is its error. The body
  structure is a pointer that may be nil; the session reads only its number of attachments.
\<close>

record Envelope =
  env_Subject :: string
  env_Date :: int
  env_From :: "EmailAddress list"
  env_To :: "EmailAddress list"

type_synonym indexer = "string \<Rightarrow> (Envelope \<times> nat option) option"

text \<open>The four collections and the faults of the environment, consumed as in the IMAP world.\<close>

record LWorld =
  l_addresses :: "MAddress list"
  l_users :: "MUser list"
  l_mailboxes :: "MMailbox list"
  l_messages :: "MMessage list"
  l_faults :: "bool list"

definition l_next_fault :: "LWorld \<Rightarrow> bool \<times> LWorld" where
  "l_next_fault w = (case l_faults w of [] \<Rightarrow> (False, w) | f # fs \<Rightarrow> (f, w\<lparr>l_faults := fs\<rparr>))"

text \<open>\<open>FindOne(filter).Decode(&x)\<close> on a collection.\<close>

definition l_FindOne :: "(LWorld \<Rightarrow> 'a list) \<Rightarrow> ('a \<Rightarrow> bool) \<Rightarrow> LWorld \<Rightarrow> 'a found \<times> LWorld" where
  "l_FindOne coll P w =
     (let (f, w1) = l_next_fault w in
      if f then (DbError, w1)
      else case filter P (coll w1) of [] \<Rightarrow> (NoDocuments, w1) | x # _ \<Rightarrow> (Found x, w1))"

subsection \<open>MAIL, RCPT, RSET\<close>

definition Mail :: "LSession \<Rightarrow> LSession" where
  "Mail s = s\<lparr>users := []\<rparr>"

definition Reset :: "LSession \<Rightarrow> LSession" where
  "Reset s = s\<lparr>users := []\<rparr>"

definition normalizeAddress :: "string \<Rightarrow> string" where
  "normalizeAddress addr = ToLower (TrimSpace addr)"

text \<open>
  \<open>removeAddressTag\<close>: every leftmost match of the pattern \<open>\+[^@]*@\<close>, a plus sign
  up to the next at sign, is replaced by an at sign.
\<close>

function removeAddressTag :: "string \<Rightarrow> string" where
  "removeAddressTag [] = []"
| "removeAddressTag (c # cs) =
     (if c = CHR ''+'' \<and> CHR ''@'' \<in> set cs
      then CHR ''@'' # removeAddressTag (tl (dropWhile (\<lambda>x. x \<noteq> CHR ''@'') cs))
      else c # removeAddressTag cs)"
  by pat_completeness auto
termination
  by (relation "measure length")
     (auto simp add: less_Suc_eq_le intro: le_trans [OF diff_le_self length_dropWhile_le])

definition Rcpt :: "LSession \<Rightarrow> LWorld \<Rightarrow> string \<Rightarrow> SMTPError option \<times> LSession \<times> LWorld" where
  "Rcpt s w to =
     (let originalRecipient = normalizeAddress to;
          recipient = removeAddressTag originalRecipient
      in case l_FindOne l_addresses (\<lambda>a. ma_Address a = recipient) w of
           (NoDocuments, w1) \<Rightarrow> (Some \<lparr>Code = 550, Msg = ''Unknown recipient''\<rparr>, s, w1)
         | (DbError, w1) \<Rightarrow> (Some \<lparr>Code = 450, Msg = ''Database error''\<rparr>, s, w1)
         | (Found address, w1) \<Rightarrow>
             (case l_FindOne l_users (\<lambda>u. mu_ID u = ma_User address) w1 of
                (NoDocuments, w2) \<Rightarrow> (Some \<lparr>Code = 550, Msg = ''Unknown recipient''\<rparr>, s, w2)
              | (DbError, w2) \<Rightarrow> (Some \<lparr>Code = 450, Msg = ''Database error''\<rparr>, s, w2)
              | (Found usr, w2) \<Rightarrow>
                  if mu_Disabled usr then (Some \<lparr>Code = 550, Msg = ''User disabled''\<rparr>, s, w2)
                  else (None,
                        s\<lparr>users := users s @ [\<lparr>Recipient = originalRecipient, ur_User = usr, ur_Address = address\<rparr>]\<rparr>,
                        w2)))"

subsection \<open>Filters\<close>

definition act_bool :: "Filter \<Rightarrow> string \<Rightarrow> bool" where
  "act_bool f k = (case map_of (f_Action f) k of Some (ABool b) \<Rightarrow> b | _ \<Rightarrow> False)"

definition act_str :: "Filter \<Rightarrow> string \<Rightarrow> string" where
  "act_str f k = (case map_of (f_Action f) k of Some (AStr v) \<Rightarrow> v | _ \<Rightarrow> [])"

text \<open>
  \<open>matchesFilter\<close>. \<open>regexp.MatchString\<close> belongs to the Go library and is the parameter
  \<open>re_match pattern text\<close>; an invalid pattern counts as no match, as the dropped error does.
\<close>

definition matchesFilter ::
  "(string \<Rightarrow> string \<Rightarrow> bool) \<Rightarrow> Filter \<Rightarrow> nat option \<Rightarrow> string \<Rightarrow> bool" where
  "matchesFilter re_match f bodyStructure rawMessage =
     (let q = f_Query f;
          headers_ok =
            (fq_Headers q = [] \<or>
             list_all (\<lambda>hv. re_match (ToLower (fst hv) @ '':'' @ [BSL] @ ''s*'' @ ToLower (snd hv))
                                  (ToLower rawMessage)) (fq_Headers q));
          hasAttachments = (case bodyStructure of None \<Rightarrow> False | Some k \<Rightarrow> 0 < k);
          attach_ok =
            (case fq_HasAttachments q of
               None \<Rightarrow> True
             | Some ha \<Rightarrow> \<not> (0 < ha \<and> \<not> hasAttachments) \<and> \<not> (ha < 0 \<and> hasAttachments));
          messageSize = int (length rawMessage);
          size_ok =
            (case fq_Size q of
               None \<Rightarrow> True
             | Some filterSize \<Rightarrow> \<not> (filterSize < 0 \<and> - filterSize < messageSize)
                                  \<and> \<not> (0 < filterSize \<and> messageSize < filterSize));
          text_ok = (fq_Text q = [] \<or> Contains (ToLower rawMessage) (ToLower (fq_Text q)))
      in headers_ok \<and> attach_ok \<and> size_ok \<and> text_ok)"

text \<open>The loop over the filters: target mailbox, flags, and whether a filter asked for deletion.\<close>

fun apply_filters :: "(Filter \<Rightarrow> bool) \<Rightarrow> Filter list \<Rightarrow> string \<Rightarrow> string list \<Rightarrow> string \<times> string list \<times> bool" where
  "apply_filters matching [] mailboxPath flags = (mailboxPath, flags, False)"
| "apply_filters matching (f # fs) mailboxPath flags =
     (if matching f then
        (let path1 = (if act_bool f ''spam'' then ''Junk'' else mailboxPath);
             flags1 = flags @ (if act_bool f ''seen'' then [BSL # ''Seen''] else []);
             flags2 = flags1 @ (if act_bool f ''flag'' then [BSL # ''Flagged''] else [])
         in if act_bool f ''delete'' then (path1, flags2, True)
            else apply_filters matching fs (if act_str f ''mailbox'' \<noteq> [] then act_str f ''mailbox'' else path1) flags2)
      else apply_filters matching fs mailboxPath flags)"

subsection \<open>Delivery to one recipient\<close>

datatype deliver_error =
  FailedToProcess | FailedToFindInbox | FailedToFindMailbox | FailedToUpdateUID | FailedToStore

text \<open>
  The text the code itself puts into each error; the text of the wrapped driver error is
  not modelled.
\<close>

fun error_text :: "deliver_error \<Rightarrow> string" where
  "error_text FailedToProcess = ''failed to process message''"
| "error_text FailedToFindInbox = ''failed to find INBOX''"
| "error_text FailedToFindMailbox = ''failed to find mailbox''"
| "error_text FailedToUpdateUID = ''failed to update mailbox UID''"
| "error_text FailedToStore = ''failed to store message''"

definition store_message ::
  "UserRecipient \<Rightarrow> MMailbox \<Rightarrow> Envelope \<Rightarrow> string list \<Rightarrow> nat \<Rightarrow> LWorld \<Rightarrow> deliver_error option \<times> LWorld" where
  "store_message ur mailbox envelope flags sz w =
     (let (f1, w1) = l_next_fault w in
      if f1 \<or> \<not> list_ex (\<lambda>b. mm_ID b = mm_ID mailbox) (l_mailboxes w1) then (Some FailedToUpdateUID, w1)
      else
        let w2 = w1\<lparr>l_mailboxes :=
                      update_first (\<lambda>b. mm_ID b = mm_ID mailbox)
                        (\<lambda>b. b\<lparr>mm_UIDNext := mm_UIDNext b + 1, mm_ModifyIndex := mm_ModifyIndex b + 1\<rparr>)
                        (l_mailboxes w1)\<rparr>;
            messageDoc =
              \<lparr>mg_User = mu_ID (ur_User ur), mg_Mailbox = mm_ID mailbox, mg_UID = mm_UIDNext mailbox,
                mg_ModSeq = mm_ModifyIndex mailbox + 1, mg_Size = int sz, mg_Flags = flags,
                mg_Subject = env_Subject envelope, mg_Date = env_Date envelope,
                mg_Unseen = (BSL # ''Seen'' \<notin> set flags), mg_Undeleted = True,
                mg_Flagged = (BSL # ''Flagged'' \<in> set flags), mg_Draft = (BSL # ''Draft'' \<in> set flags),
                mg_MetaFrom = (case env_From envelope of [] \<Rightarrow> [] | a # _ \<Rightarrow> ea_Address a),
                mg_HeaderFrom = env_From envelope, mg_HeaderTo = env_To envelope\<rparr>;
            (f2, w3) = l_next_fault w2
        in if f2 then (Some FailedToStore, w3)
           else
             let w4 = w3\<lparr>l_messages := l_messages w3 @ [messageDoc]\<rparr>;
                 (f3, w5) = l_next_fault w4
             in if f3 then (None, w5)
                else (None, w5\<lparr>l_users :=
                                  update_first (\<lambda>u. mu_ID u = mu_ID (ur_User ur))
                                    (\<lambda>u. u\<lparr>mu_StorageUsed := mu_StorageUsed u + int sz\<rparr>) (l_users w5)\<rparr>))"

definition processMessage ::
  "indexer \<Rightarrow> (string \<Rightarrow> string \<Rightarrow> bool) \<Rightarrow> string \<Rightarrow> string \<Rightarrow> UserRecipient \<Rightarrow> LWorld
     \<Rightarrow> deliver_error option \<times> LWorld" where
  "processMessage index re_match spamHeader rawMessage ur w =
     (let messageWithHeaders = ''Delivered-To: '' @ Recipient ur @ CRLF @ rawMessage in
      case index messageWithHeaders of
        None \<Rightarrow> (Some FailedToProcess, w)
      | Some (envelope, bodyStructure) \<Rightarrow>
          let filters =
                (if spamHeader \<noteq> [] then
                   [\<lparr>f_ID = ''SPAM'',
                     f_Query = \<lparr>fq_Headers = [(ToLower spamHeader, ''yes'')], fq_HasAttachments = None,
                                fq_Size = None, fq_Text = []\<rparr>,
                     f_Action = [(''spam'', ABool True)]\<rparr>]
                 else []);
              (mailboxPath, flags, deleteMessage) =
                apply_filters (\<lambda>f. matchesFilter re_match f bodyStructure messageWithHeaders) filters ''INBOX'' []
          in if deleteMessage then (None, w)
             else
               let target = (\<lambda>b. mm_User b = mu_ID (ur_User ur) \<and>
                                   (if mailboxPath = ''Junk'' then mm_SpecialUse b = BSL # ''Junk''
                                    else mm_Path b = mailboxPath))
               in case l_FindOne l_mailboxes target w of
                    (Found mailbox, w1) \<Rightarrow> store_message ur mailbox envelope flags (length messageWithHeaders) w1
                  | (DbError, w1) \<Rightarrow> (Some FailedToFindMailbox, w1)
                  | (NoDocuments, w1) \<Rightarrow>
                      (case l_FindOne l_mailboxes (\<lambda>b. mm_User b = mu_ID (ur_User ur) \<and> mm_Path b = ''INBOX'') w1 of
                         (Found mailbox, w2) \<Rightarrow> store_message ur mailbox envelope flags (length messageWithHeaders) w2
                       | (_, w2) \<Rightarrow> (Some FailedToFindInbox, w2)))"

subsection \<open>DATA\<close>

text \<open>The loop that fills \<open>responses\<close>, one entry per accepted recipient, in order.\<close>

fun deliver_all ::
  "indexer \<Rightarrow> (string \<Rightarrow> string \<Rightarrow> bool) \<Rightarrow> string \<Rightarrow> string \<Rightarrow> UserRecipient list \<Rightarrow> LWorld
     \<Rightarrow> SMTPError option list \<times> LWorld" where
  "deliver_all index re_match spamHeader rawMessage [] w = ([], w)"
| "deliver_all index re_match spamHeader rawMessage (ur # urs) w =
     (case processMessage index re_match spamHeader rawMessage ur w of
        (r, w1) \<Rightarrow>
          (case deliver_all index re_match spamHeader rawMessage urs w1 of
             (rs, w2) \<Rightarrow>
               ((case r of
                   None \<Rightarrow> None
                 | Some e \<Rightarrow> Some \<lparr>Code = 450, Msg = ''Error processing message: '' @ error_text e\<rparr>) # rs,
                w2)))"

text \<open>
  \<open>Session.Data\<close>: the value it returns to the SMTP library is one status for the whole
  transaction. The first fault is that of reading the payload.
\<close>

definition Data ::
  "indexer \<Rightarrow> (string \<Rightarrow> string \<Rightarrow> bool) \<Rightarrow> string \<Rightarrow> LSession \<Rightarrow> string \<Rightarrow> LWorld
     \<Rightarrow> SMTPError option \<times> LWorld" where
  "Data index re_match spamHeader s rawMessage w =
     (let (f, w1) = l_next_fault w in
      if f then (Some \<lparr>Code = 450, Msg = ''Error reading message data''\<rparr>, w1)
      else case deliver_all index re_match spamHeader rawMessage (users s) w1 of
             (responses, w2) \<Rightarrow>
               if list_ex (\<lambda>e. e = None) responses then (None, w2)
               else (Some \<lparr>Code = 450, Msg = ''Failed to deliver to all recipients''\<rparr>, w2))"

subsection \<open>A concrete LMTP store: two users, each with an inbox\<close>

definition ex_lworld :: "bool list \<Rightarrow> LWorld" where
  "ex_lworld fs =
     \<lparr>l_addresses = [\<lparr>ma_User = 1, ma_Address = ''ann@localhost''\<rparr>, \<lparr>ma_User = 2, ma_Address = ''bob@localhost''\<rparr>],
      l_users = [\<lparr>mu_ID = 1, mu_Disabled = False, mu_StorageUsed = 0\<rparr>,
                 \<lparr>mu_ID = 2, mu_Disabled = False, mu_StorageUsed = 0\<rparr>],
      l_mailboxes = [\<lparr>mm_ID = 10, mm_User = 1, mm_Path = ''INBOX'', mm_SpecialUse = BSL # ''Inbox'',
                       mm_ModifyIndex = 0, mm_UIDNext = 1\<rparr>,
                     \<lparr>mm_ID = 20, mm_User = 2, mm_Path = ''INBOX'', mm_SpecialUse = BSL # ''Inbox'',
                       mm_ModifyIndex = 0, mm_UIDNext = 1\<rparr>],
      l_messages = [],
      l_faults = fs\<rparr>"

definition ex_index :: indexer where
  "ex_index m = Some (\<lparr>env_Subject = ''hi'', env_Date = 0, env_From = [\<lparr>ea_Name = [], ea_Address = ''s@x''\<rparr>],
                        env_To = []\<rparr>, Some 0)"

text \<open>The session after \<open>MAIL FROM\<close> and the two accepted \<open>RCPT TO\<close> commands.\<close>

definition ex_lsession :: LSession where
  "ex_lsession =
     fst (snd (Rcpt (fst (snd (Rcpt (Mail \<lparr>users = []\<rparr>) (ex_lworld []) ''Ann@localhost''))) (ex_lworld [])
                 ''bob+news@localhost''))"


section \<open>Properties\<close>

lemma next_fault_nil [simp]: "faults w = [] \<Longrightarrow> next_fault w = (False, w)"
  by (simp add: next_fault_def)

lemma next_fault_cons [simp]: "faults w = f # fs \<Longrightarrow> next_fault w = (f, w\<lparr>faults := fs\<rparr>)"
  by (simp add: next_fault_def)

lemmas ex_defs = ex_user_def ex_inbox_def ex_archive_def ex_msg_def ex_session_def ex_world_def

lemma write_all_ok:
  "faults w = [] \<Longrightarrow> write_all xs w = (None, w\<lparr>out := out w @ map (\<lambda>x. ''* '' @ x @ CRLF) xs\<rparr>)"
  by (induction xs arbitrary: w) (simp_all add: writeUntaggedResponse_def write_line_def)

lemma matches_deleted_eq:
  "matches (ByMailboxDeleted b) = (\<lambda>m. msg_Mailbox m = b \<and> Deleted m)"
  by (simp add: fun_eq_iff)

subsection \<open>CLOSE\<close>

text \<open>
  C10. CLOSE in the selected state: the messages of the selected mailbox that carry the
  Deleted flag are removed without any untagged response, the selection is cleared, the
  state becomes Authenticated and the one line written is the tagged OK. When the
  deletion fails (\<open>del_fails\<close>) the reply and the state change are the same, and the store
  is left as it was.
\<close>

theorem handleClose_silent:
  assumes "state s = StateSelected" and "selectedBox s = Some box"
    and "faults w = [del_fails]"
  shows "handleClose s w tag =
           (None,
            s\<lparr>selectedBox := None, state := StateAuthenticated\<rparr>,
            w\<lparr>messages := (if del_fails then messages w
                           else filter (\<lambda>m. \<not> (msg_Mailbox m = mb_ID box \<and> Deleted m)) (messages w)),
              out := out w @ [tag @ '' OK CLOSE completed'' @ CRLF],
              faults := []\<rparr>)"
  using assms
  by (simp add: handleClose_def reply_def writeResponse_def write_line_def DeleteMany_def)

text \<open>The theorem at a store with one deleted message, with the deletion failing and succeeding.\<close>

theorem handleClose_silent_witness:
  "state ex_session = StateSelected \<and> selectedBox ex_session = Some ex_inbox
   \<and> faults (ex_world [ex_msg 1 5, (ex_msg 2 7)\<lparr>Deleted := True\<rparr>] [True]) = [True]
   \<and> handleClose ex_session (ex_world [ex_msg 1 5, (ex_msg 2 7)\<lparr>Deleted := True\<rparr>] [True]) ''A9''
       = (None, ex_session\<lparr>selectedBox := None, state := StateAuthenticated\<rparr>,
          \<lparr>mailboxes = [ex_inbox, ex_archive], messages = [ex_msg 1 5, (ex_msg 2 7)\<lparr>Deleted := True\<rparr>],
            out = [''A9 OK CLOSE completed'' @ CRLF], faults = []\<rparr>)
   \<and> handleClose ex_session (ex_world [ex_msg 1 5, (ex_msg 2 7)\<lparr>Deleted := True\<rparr>] [False]) ''A9''
       = (None, ex_session\<lparr>selectedBox := None, state := StateAuthenticated\<rparr>,
          \<lparr>mailboxes = [ex_inbox, ex_archive], messages = [ex_msg 1 5],
            out = [''A9 OK CLOSE completed'' @ CRLF], faults = []\<rparr>)"
  using handleClose_silent [of ex_session ex_inbox "ex_world [ex_msg 1 5, (ex_msg 2 7)\<lparr>Deleted := True\<rparr>] [True]" True "''A9''"]
        handleClose_silent [of ex_session ex_inbox "ex_world [ex_msg 1 5, (ex_msg 2 7)\<lparr>Deleted := True\<rparr>] [False]" False "''A9''"]
  by (simp add: ex_defs)

subsection \<open>APPEND\<close>

text \<open>
  C2, as the code has it. An APPEND by an authenticated session that names an existing
  mailbox and carries at least two arguments is answered with the tagged
  \<open>NO APPEND not fully implemented\<close>; nothing is parsed, no UID is allocated and no
  message is inserted: the store is unchanged.
\<close>

theorem handleAppend_not_implemented:
  assumes "authenticated s" and "user s = Some u" and "faults w = []"
    and "2 \<le> length (parseQuotedArguments args)"
    and "filter (\<lambda>b. mb_User b = u_ID u \<and> Path b = parseQuotedArguments args ! 0) (mailboxes w) \<noteq> []"
  shows "handleAppend s w tag args =
           (None, s, w\<lparr>out := out w @ [tag @ '' NO APPEND not fully implemented'' @ CRLF]\<rparr>)"
  using assms
  by (auto simp add: handleAppend_def reply_def writeResponse_def write_line_def FindOne_mailbox_def
        split: list.splits)

text \<open>The theorem at the APPEND of scenario S1.\<close>

theorem handleAppend_not_implemented_witness:
  "authenticated ex_session \<and> user ex_session = Some ex_user \<and> faults (ex_world [] []) = []
   \<and> 2 \<le> length (parseQuotedArguments ''INBOX {64+}'')
   \<and> filter (\<lambda>b. mb_User b = u_ID ex_user \<and> Path b = parseQuotedArguments ''INBOX {64+}'' ! 0)
        (mailboxes (ex_world [] [])) \<noteq> []
   \<and> handleAppend ex_session (ex_world [] []) ''A3'' ''INBOX {64+}''
       = (None, ex_session,
          \<lparr>mailboxes = [ex_inbox, ex_archive], messages = [],
            out = [''A3 NO APPEND not fully implemented'' @ CRLF], faults = []\<rparr>)"
  using handleAppend_not_implemented [of ex_session ex_user "ex_world [] []" "''INBOX {64+}''" "''A3''"]
  by (simp add: ex_defs parseQuotedArguments_def)

text \<open>
  C2 as stated fails: the APPEND of scenario S1, sent by an authenticated session to its
  existing INBOX, is answered NO, and the store holds no message afterwards.
\<close>

theorem handleAppend_counterexample:
  "handleAppend ex_session (ex_world [] []) ''A3'' ''INBOX {64+}''
     = (None, ex_session, (ex_world [] [])\<lparr>out := [''A3 NO APPEND not fully implemented'' @ CRLF]\<rparr>)"
  by (simp add: Let_def ex_defs handleAppend_def parseQuotedArguments_def reply_def writeResponse_def
        write_line_def FindOne_mailbox_def)

subsection \<open>FETCH\<close>

text \<open>
  C3 at a failing input. The item list \<open>(RFC822.SIZE)\<close> names a metadata item only, yet
  FETCH and UID FETCH set the Seen flag of the unseen message: the test for the item
  \<open>RFC822\<close> is a substring test, and \<open>RFC822.SIZE\<close> contains \<open>RFC822\<close>.
\<close>

theorem handleFetch_size_sets_seen:
  "map Seen (messages (snd (snd (handleFetch fmtTime ex_session (ex_world [ex_msg 1 1] []) ''A4''
                                   ''1 (RFC822.SIZE)'')))) = [True]
   \<and> map Seen (messages (snd (snd (handleUIDFetch fmtTime ex_session (ex_world [ex_msg 1 1] []) ''A4''
                                   ''1 (RFC822.SIZE)'')))) = [True]"
  by (simp add: ex_defs handleFetch_def handleUIDFetch_def SplitN_def ToUpper_def upper_char_def Atoi_def
        digit_val_def Find_def buildFetchResponse_def markMessageSeen_def UpdateOne_message_def reply_def
        writeResponse_def writeUntaggedResponse_def write_line_def)

subsection \<open>STORE\<close>

text \<open>
  C4 at a failing input. \<open>+FLAGS (\Seen)\<close> on a message that is flagged clears its
  Flagged flag, and \<open>-FLAGS.SILENT (\Seen)\<close> through UID STORE clears the Flagged flag as
  well: both write all five flag columns.
\<close>

theorem handleStore_plus_flags_overwrites:
  "map (\<lambda>m. (Seen m, Flagged m))
     (messages (snd (snd (handleStore ex_session (ex_world [(ex_msg 1 1)\<lparr>Flagged := True\<rparr>] []) ''A5''
                            (''1 +FLAGS ('' @ [BSL] @ ''Seen)''))))) = [(True, False)]
   \<and> map (\<lambda>m. (Seen m, Flagged m))
     (messages (snd (snd (handleUIDStore ex_session
                            (ex_world [(ex_msg 1 1)\<lparr>Flagged := True, Seen := True\<rparr>] []) ''A5''
                            (''1 -FLAGS.SILENT ('' @ [BSL] @ ''Seen)''))))) = [(False, False)]"
  by (simp add: ex_defs handleStore_def handleUIDStore_def store_run_def store_update_def parseFlags_def
        apply_set_def set_field_def SplitN_def ToUpper_def upper_char_def Atoi_def digit_val_def Find_def
        UpdateMany_def Fields_def Trim_def rune_len_def space_runes_def HasPrefix_def reply_def writeResponse_def
        writeUntaggedResponse_def write_line_def)

subsection \<open>EXPUNGE\<close>

text \<open>
  C5, as the code has it. EXPUNGE in the selected state, with no fault, removes exactly
  the messages of the selected mailbox that carry the Deleted flag and writes, for each
  of them, one untagged line \<open>* <uid> EXPUNGE\<close> carrying the UID of the message, in
  ascending order of UID, before the tagged OK.
\<close>

theorem handleExpunge_uid_lines:
  assumes "state s = StateSelected" and "selectedBox s = Some box" and "faults w = []"
  shows "handleExpunge s w tag =
           (None, s,
            w\<lparr>messages := filter (\<lambda>m. \<not> (msg_Mailbox m = mb_ID box \<and> Deleted m)) (messages w),
              out := out w
                @ map (\<lambda>uid. ''* '' @ itoa uid @ '' EXPUNGE'' @ CRLF)
                    (map UID (sort_key UID (filter (\<lambda>m. msg_Mailbox m = mb_ID box \<and> Deleted m) (messages w))))
                @ [tag @ '' OK EXPUNGE completed'' @ CRLF]\<rparr>)
         \<and> sorted (map UID (sort_key UID (filter (\<lambda>m. msg_Mailbox m = mb_ID box \<and> Deleted m) (messages w))))
         \<and> mset (sort_key UID (filter (\<lambda>m. msg_Mailbox m = mb_ID box \<and> Deleted m) (messages w)))
             = mset (filter (\<lambda>m. msg_Mailbox m = mb_ID box \<and> Deleted m) (messages w))"
  using assms
  by (simp add: Let_def handleExpunge_def Find_def DeleteMany_def write_all_ok reply_def writeResponse_def
        write_line_def o_def matches_deleted_eq)

text \<open>The theorem at a mailbox holding UIDs 9, 5 and 7, of which 9 and 7 are deleted.\<close>

theorem handleExpunge_uid_lines_witness:
  "state ex_session = StateSelected \<and> selectedBox ex_session = Some ex_inbox
   \<and> faults (ex_world [(ex_msg 3 9)\<lparr>Deleted := True\<rparr>, ex_msg 1 5, (ex_msg 2 7)\<lparr>Deleted := True\<rparr>] []) = []
   \<and> handleExpunge ex_session
        (ex_world [(ex_msg 3 9)\<lparr>Deleted := True\<rparr>, ex_msg 1 5, (ex_msg 2 7)\<lparr>Deleted := True\<rparr>] []) ''A1''
       = (None, ex_session,
          \<lparr>mailboxes = [ex_inbox, ex_archive], messages = [ex_msg 1 5],
            out = [''* 7 EXPUNGE'' @ CRLF, ''* 9 EXPUNGE'' @ CRLF, ''A1 OK EXPUNGE completed'' @ CRLF],
            faults = []\<rparr>)"
  using handleExpunge_uid_lines [of ex_session ex_inbox
          "ex_world [(ex_msg 3 9)\<lparr>Deleted := True\<rparr>, ex_msg 1 5, (ex_msg 2 7)\<lparr>Deleted := True\<rparr>] []" "''A1''"]
  by (simp add: ex_defs itoa_def nat_digits.simps digit_char_def)

text \<open>
  C5 as stated fails: in a mailbox holding UID 5 and the deleted UID 7, the deleted
  message has sequence number 2, and the line written is \<open>* 7 EXPUNGE\<close>.
\<close>

theorem handleExpunge_seqnum_counterexample:
  "out (snd (snd (handleExpunge ex_session (ex_world [ex_msg 1 5, (ex_msg 2 7)\<lparr>Deleted := True\<rparr>] []) ''A1'')))
     = [''* 7 EXPUNGE'' @ CRLF, ''A1 OK EXPUNGE completed'' @ CRLF]
   \<and> spec_seqnum (mb_ID ex_inbox) [ex_msg 1 5, (ex_msg 2 7)\<lparr>Deleted := True\<rparr>] 7 = 2"
  by (simp add: ex_defs spec_seqnum_def handleExpunge_def Find_def DeleteMany_def reply_def writeResponse_def
        writeUntaggedResponse_def write_line_def itoa_def nat_digits.simps digit_char_def)

subsection \<open>MOVE\<close>



























text \<open>
  The handler does not look at the result of the update of the stored counter. When that
  call fails the command is still answered OK and the stored \<open>UIDNext\<close> of the destination
  stays behind the UID just given out, so the store no longer meets the invariant the
  theorem above assumes: here the archive keeps \<open>UIDNext\<close> 1 beside a message with UID 1,
  and the next \<open>MOVE\<close> into it hands out UID 1 a second time.
\<close>

lemma handleMove_discarded_inc_error:
  "out (snd (snd (handleMove ex_session (ex_world [ex_msg 1 1, ex_msg 2 2] [False, False, False, True])
                    ''A8'' ''1 Archive'')))
     = [''* 1 EXPUNGE'' @ CRLF, ''A8 OK MOVE completed'' @ CRLF]
   \<and> map (\<lambda>b. (mb_ID b, UIDNext b))
        (mailboxes (snd (snd (handleMove ex_session (ex_world [ex_msg 1 1, ex_msg 2 2] [False, False, False, True])
                    ''A8'' ''1 Archive''))))
     = [(10, 8), (11, 1)]
   \<and> map (\<lambda>m. (msg_ID m, msg_Mailbox m, UID m))
        (messages (snd (snd (handleMove ex_session
           (snd (snd (handleMove ex_session (ex_world [ex_msg 1 1, ex_msg 2 2] [False, False, False, True])
                    ''A8'' ''1 Archive'')))
           ''A9'' ''2 Archive''))))
     = [(1, 11, 1), (2, 11, 1)]"
  by (simp add: ex_defs handleMove_def SplitN_def parseMailboxPath_def
        TrimSpace_def trim_runes.simps rune_len_def space_runes_def
        HasPrefix_def HasSuffix_def FindOne_mailbox_def Find_def Atoi_def digit_val_def
        UpdateOne_message_def UpdateOne_mailbox_def inc_uidNext_def int64_def writeUntaggedResponse_def reply_def
        writeResponse_def write_line_def itoa_def nat_digits.simps digit_char_def Let_def next_fault_def)

subsection \<open>LMTP DATA\<close>

lemma ex_lsession_users:
  "users ex_lsession =
     [\<lparr>Recipient = ''ann@localhost'', ur_User = \<lparr>mu_ID = 1, mu_Disabled = False, mu_StorageUsed = 0\<rparr>,
        ur_Address = \<lparr>ma_User = 1, ma_Address = ''ann@localhost''\<rparr>\<rparr>,
      \<lparr>Recipient = ''bob+news@localhost'', ur_User = \<lparr>mu_ID = 2, mu_Disabled = False, mu_StorageUsed = 0\<rparr>,
        ur_Address = \<lparr>ma_User = 2, ma_Address = ''bob@localhost''\<rparr>\<rparr>]"
  by (simp add: Let_def ex_lsession_def ex_lworld_def Rcpt_def Mail_def normalizeAddress_def ToLower_def lower_char_def
        TrimSpace_def trim_runes.simps rune_len_def space_runes_def l_FindOne_def l_next_fault_def)

text \<open>
  C1 at a failing input. Two recipients were accepted; the delivery to the first fails
  (its mailbox lookup meets a store error) and the delivery to the second succeeds. The
  loop records the statuses 450 and success, in order, but \<open>Data\<close> returns the single
  status success for the transaction: nothing it returns tells the two recipients apart,
  and the failure of the first is reported as a delivery.
\<close>

theorem Data_single_status:
  "fst (deliver_all ex_index (\<lambda>p t. False) ''X-Spam-Flag'' ''Subject: hi'' (users ex_lsession) (ex_lworld [True]))
     = [Some \<lparr>Code = 450, Msg = ''Error processing message: failed to find mailbox''\<rparr>, None]
   \<and> fst (Data ex_index (\<lambda>p t. False) ''X-Spam-Flag'' ex_lsession ''Subject: hi'' (ex_lworld [False, True])) = None"
  by (simp add: Let_def ex_lsession_users Data_def processMessage_def store_message_def matchesFilter_def act_bool_def act_str_def
        ex_index_def ex_lworld_def l_FindOne_def l_next_fault_def ToLower_def lower_char_def)

end
